theory Spec2Isabelle
  imports Complex_Main "HOL-Library.Sublist"
begin

section \<open>Single-precision numbers\<close>

text \<open>
  The program is \<^verbatim>\<open>sources/game.c\<close>: a window, a 2D camera, a fractal tree drawn into an
  off-screen target and composited through a shader. Its \<^verbatim>\<open>float\<close> values are IEEE 754
  binary32 numbers, and every \<^verbatim>\<open>float\<close> operation of the code rounds its exact result to
  the nearest binary32 value, ties to the even significand, evaluated in single precision
  (\<^verbatim>\<open>FLT_EVAL_METHOD\<close> 0). A value is a finite real, an infinity or a NaN; the two zeros
  are one value here, since the code never tells them apart.
\<close>

datatype f32 = Fin real | PInf | NInf | NaN

text \<open>Round to the nearest integer, ties to even.\<close>

definition rne :: "real \<Rightarrow> int" where
  "rne r =
     (let f = \<lfloor>r\<rfloor>; d = r - of_int f
      in if d < 1 / 2 then f
         else if 1 / 2 < d then f + 1
         else if even f then f else f + 1)"

text \<open>
  The binade of a magnitude \<open>a\<close> scaled by \<open>2 ^ 126\<close>: the largest \<open>i\<close> up to \<open>n\<close> with
  \<open>2 ^ i \<le> a\<close>, and 0 when there is none (the subnormal range and the first normal
  binade share the spacing \<open>2 ^ -149\<close>).
\<close>

fun f32_binade :: "nat \<Rightarrow> real \<Rightarrow> nat" where
  "f32_binade 0 a = 0"
| "f32_binade (Suc n) a = (if 2 ^ Suc n \<le> a then Suc n else f32_binade n a)"

text \<open>The spacing of the binary32 values around \<open>x\<close>: 24 significant bits.\<close>

definition f32_quantum :: "real \<Rightarrow> real" where
  "f32_quantum x = 2 ^ f32_binade 253 (\<bar>x\<bar> * 2 ^ 126) / 2 ^ 149"

text \<open>Rounding of an exact result; a result of magnitude \<open>2 ^ 128\<close> or more overflows.\<close>

definition round32 :: "real \<Rightarrow> f32" where
  "round32 x =
     (let q = f32_quantum x; y = of_int (rne (x / q)) * q
      in if 2 ^ 128 \<le> \<bar>y\<bar> then (if 0 < x then PInf else NInf) else Fin y)"

fun f32_neg :: "f32 \<Rightarrow> f32" where
  "f32_neg (Fin a) = Fin (- a)"
| "f32_neg PInf = NInf"
| "f32_neg NInf = PInf"
| "f32_neg NaN = NaN"

fun f32_add :: "f32 \<Rightarrow> f32 \<Rightarrow> f32" where
  "f32_add (Fin a) (Fin b) = round32 (a + b)"
| "f32_add NaN y = NaN"
| "f32_add x NaN = NaN"
| "f32_add PInf NInf = NaN"
| "f32_add NInf PInf = NaN"
| "f32_add PInf y = PInf"
| "f32_add x PInf = PInf"
| "f32_add NInf y = NInf"
| "f32_add x NInf = NInf"

definition f32_sub :: "f32 \<Rightarrow> f32 \<Rightarrow> f32" where
  "f32_sub x y = f32_add x (f32_neg y)"

fun f32_mul :: "f32 \<Rightarrow> f32 \<Rightarrow> f32" where
  "f32_mul (Fin a) (Fin b) = round32 (a * b)"
| "f32_mul NaN y = NaN"
| "f32_mul x NaN = NaN"
| "f32_mul (Fin a) PInf = (if a = 0 then NaN else if 0 < a then PInf else NInf)"
| "f32_mul (Fin a) NInf = (if a = 0 then NaN else if 0 < a then NInf else PInf)"
| "f32_mul PInf (Fin b) = (if b = 0 then NaN else if 0 < b then PInf else NInf)"
| "f32_mul NInf (Fin b) = (if b = 0 then NaN else if 0 < b then NInf else PInf)"
| "f32_mul PInf PInf = PInf"
| "f32_mul PInf NInf = NInf"
| "f32_mul NInf PInf = NInf"
| "f32_mul NInf NInf = PInf"

text \<open>The conversion of an \<^verbatim>\<open>int\<close> to \<^verbatim>\<open>float\<close>.\<close>

definition f32_of_int :: "int \<Rightarrow> f32" where
  "f32_of_int n = round32 (of_int n)"

fun f32_finite :: "f32 \<Rightarrow> bool" where
  "f32_finite (Fin a) = True"
| "f32_finite x = False"

text \<open>The real number a finite value stands for (0 for the others).\<close>

fun f32_value :: "f32 \<Rightarrow> real" where
  "f32_value (Fin a) = a"
| "f32_value x = 0"

text \<open>A real number is a binary32 value when rounding leaves it as it is.\<close>

definition f32_representable :: "real \<Rightarrow> bool" where
  "f32_representable x \<longleftrightarrow> round32 x = Fin x"

section \<open>Data model\<close>

subsection \<open>Library types (raylib)\<close>

text \<open>\<^verbatim>\<open>Vector2 { float x; float y; }\<close>; the fields are named \<open>vx\<close> and \<open>vy\<close> here.\<close>

record Vector2 =
  vx :: f32
  vy :: f32

text \<open>\<^verbatim>\<open>Camera2D { Vector2 offset; Vector2 target; float rotation; float zoom; }\<close>\<close>

record Camera2D =
  offset :: Vector2
  target :: Vector2
  rotation :: f32
  zoom :: f32

text \<open>\<^verbatim>\<open>Rectangle { float x; float y; float width; float height; }\<close>\<close>

record Rectangle =
  rect_x :: f32
  rect_y :: f32
  rect_width :: f32
  rect_height :: f32

text \<open>
  A texture handle with its pixel size, a render target owning a colour texture, a shader
  handle.
\<close>

record Texture2D =
  tex_id :: nat
  tex_width :: int
  tex_height :: int

record RenderTexture2D =
  rt_id :: nat
  texture :: Texture2D

record Shader =
  shader_id :: nat

text \<open>The named colours the code uses.\<close>

datatype Color = SKYBLUE | WHITE | RED

text \<open>The keys the code polls; every other key of the library is \<open>KEY_OTHER\<close>.\<close>

datatype KeyboardKey = KEY_A | KEY_D | KEY_S | KEY_W | KEY_UP | KEY_DOWN | KEY_OTHER nat

text \<open>\<^verbatim>\<open>Vector2Add\<close> and \<^verbatim>\<open>Vector2Scale\<close> take their vectors by value and return a new one.\<close>

definition Vector2Add :: "Vector2 \<Rightarrow> Vector2 \<Rightarrow> Vector2" where
  "Vector2Add v1 v2 = \<lparr>vx = f32_add (vx v1) (vx v2), vy = f32_add (vy v1) (vy v2)\<rparr>"

definition Vector2Scale :: "Vector2 \<Rightarrow> f32 \<Rightarrow> Vector2" where
  "Vector2Scale v scale = \<lparr>vx = f32_mul (vx v) scale, vy = f32_mul (vy v) scale\<rparr>"

subsection \<open>Game state\<close>

text \<open>
  Modelled from the spec: the header \<^verbatim>\<open>game.h\<close> declaring \<^verbatim>\<open>struct s_game\<close> is missing.
  The spec's Game State holds the window dimensions (width and height in pixels, taken as
  \<^verbatim>\<open>int\<close>), the window title, a 2D camera, the branch angle and the starting branch
  length, the last two real-valued (taken as \<^verbatim>\<open>float\<close>).
\<close>

record Size2 =
  size_x :: int
  size_y :: int

record s_game =
  window_size :: Size2
  title :: string
  camera :: Camera2D
  fractal_tree_angle :: f32
  fractal_tree_start_length :: f32

subsection \<open>What the library reports in one loop iteration\<close>

text \<open>
  One element per evaluation of the loop condition: the answer of
  \<^verbatim>\<open>WindowShouldClose()\<close> and, for the iteration that follows when it is false, the answers
  of \<^verbatim>\<open>IsKeyDown\<close> and \<^verbatim>\<open>GetFrameTime\<close> (constant within a frame).
\<close>

record frame =
  WindowShouldClose :: bool
  IsKeyDown :: "KeyboardKey \<Rightarrow> bool"
  GetFrameTime :: f32

section \<open>Input handling\<close>

text \<open>
  Lines 84 to 98: the local \<^verbatim>\<open>moveVector\<close> after the two key checks; \<^verbatim>\<open>x--\<close> and
  \<^verbatim>\<open>x++\<close> subtract and add 1.
\<close>

definition InputGame_moveVector :: "frame \<Rightarrow> Vector2" where
  "InputGame_moveVector f =
    (let moveVector = \<lparr>vx = Fin 0, vy = Fin 0\<rparr>;
         moveVector =
           (if IsKeyDown f KEY_D then moveVector\<lparr>vx := f32_sub (vx moveVector) (Fin 1)\<rparr>
            else if IsKeyDown f KEY_A then moveVector\<lparr>vx := f32_add (vx moveVector) (Fin 1)\<rparr>
            else moveVector);
         moveVector =
           (if IsKeyDown f KEY_S then moveVector\<lparr>vy := f32_sub (vy moveVector) (Fin 1)\<rparr>
            else if IsKeyDown f KEY_W then moveVector\<lparr>vy := f32_add (vy moveVector) (Fin 1)\<rparr>
            else moveVector)
     in moveVector)"

text \<open>
  Lines 100 to 106: the value of \<^verbatim>\<open>Vector2Scale\<close> is computed and dropped, then
  \<^verbatim>\<open>moveVector\<close> itself is added to the camera offset.
\<close>

definition InputGame_camera :: "frame \<Rightarrow> s_game \<Rightarrow> s_game" where
  "InputGame_camera f game =
    (let moveVector = InputGame_moveVector f;
         cameraSpeed = Fin 10;
         dropped = Vector2Scale moveVector (f32_mul cameraSpeed (GetFrameTime f))
     in game\<lparr>camera := (camera game)\<lparr>offset := Vector2Add (offset (camera game)) moveVector\<rparr>\<rparr>)"

text \<open>
  Lines 108 to 113: the branch angle. The product \<^verbatim>\<open>10.0f * GetFrameTime()\<close> is rounded,
  and so is the sum stored by \<^verbatim>\<open>+=\<close>.
\<close>

definition InputGame_angle :: "frame \<Rightarrow> s_game \<Rightarrow> s_game" where
  "InputGame_angle f game =
    (if IsKeyDown f KEY_UP then
       game\<lparr>fractal_tree_angle :=
         f32_add (fractal_tree_angle game) (f32_mul (Fin 10) (GetFrameTime f))\<rparr>
     else if IsKeyDown f KEY_DOWN then
       game\<lparr>fractal_tree_angle :=
         f32_add (fractal_tree_angle game) (f32_mul (Fin (- 10)) (GetFrameTime f))\<rparr>
     else game)"

definition InputGame :: "frame \<Rightarrow> s_game \<Rightarrow> s_game" where
  "InputGame f game = InputGame_angle f (InputGame_camera f game)"

text \<open>\<^verbatim>\<open>InputGame\<close> called once for each frame of a list, in turn.\<close>

fun InputGame_seq :: "s_game \<Rightarrow> frame list \<Rightarrow> s_game" where
  "InputGame_seq game [] = game"
| "InputGame_seq game (f # fs) = InputGame_seq (InputGame f game) fs"

text \<open>The frame times of a list of frames, added up as real numbers.\<close>

fun elapsed :: "frame list \<Rightarrow> real" where
  "elapsed [] = 0"
| "elapsed (f # fs) = f32_value (GetFrameTime f) + elapsed fs"

section \<open>Calls into the library\<close>

text \<open>
  The program acts only through calls of the graphics library. A run is observed as the
  list of these calls, in program order. \<open>RecursiveTreeDraw_call\<close> is the call of the tree
  generator of \<^verbatim>\<open>tree.h\<close> with its three arguments. \<open>UnloadShader\<close> and
  \<open>UnloadRenderTexture\<close> are the library's release calls for the two GPU objects.
  In \<open>LoadShader\<close> the value \<open>None\<close> is a null file name (the library's default stage).
\<close>

datatype call =
    InitWindow int int string
  | SetTargetFPS int
  | LoadShader "string option" "string option"
  | LoadRenderTexture int int
  | UnloadShader Shader
  | UnloadRenderTexture RenderTexture2D
  | CloseWindow
  | BeginTextureMode RenderTexture2D
  | EndTextureMode
  | BeginMode2D Camera2D
  | EndMode2D
  | ClearBackground Color
  | rlPushMatrix
  | rlPopMatrix
  | rlTranslatef f32 f32 f32
  | RecursiveTreeDraw_call f32 f32 f32
  | BeginDrawing
  | EndDrawing
  | BeginShaderMode Shader
  | EndShaderMode
  | DrawTextureRec Texture2D Rectangle Vector2 Color

fun is_setup_call :: "call \<Rightarrow> bool" where
  "is_setup_call (InitWindow w h t) = True"
| "is_setup_call (SetTargetFPS n) = True"
| "is_setup_call (LoadShader vs fs) = True"
| "is_setup_call (LoadRenderTexture w h) = True"
| "is_setup_call c = False"

fun is_LoadShader :: "call \<Rightarrow> bool" where
  "is_LoadShader (LoadShader vs fs) = True"
| "is_LoadShader c = False"

fun is_release_call :: "call \<Rightarrow> bool" where
  "is_release_call (UnloadShader s) = True"
| "is_release_call (UnloadRenderTexture t) = True"
| "is_release_call CloseWindow = True"
| "is_release_call c = False"

subsection \<open>Text formatting\<close>

text \<open>
  \<^verbatim>\<open>TextFormat\<close> is the library's \<^verbatim>\<open>printf\<close>-style formatter. The model covers integer
  arguments: \<^verbatim>\<open>%i\<close> and \<^verbatim>\<open>%d\<close> print the next argument in decimal, \<^verbatim>\<open>%%\<close> prints a
  percent sign, every other character is copied. A conversion the model does not know is
  copied as it stands, and a conversion with no argument left prints nothing (both are
  undefined in C). An argument no conversion asks for is ignored, as in C. The library's
  buffer limit (1024 bytes) is not modelled.
\<close>

fun dec_nat :: "nat \<Rightarrow> string" where
  "dec_nat n =
     (if n < 10 then [''0123456789'' ! n]
      else dec_nat (n div 10) @ [''0123456789'' ! (n mod 10)])"

definition dec_int :: "int \<Rightarrow> string" where
  "dec_int i = (if i < 0 then CHR ''-'' # dec_nat (nat (- i)) else dec_nat (nat i))"

fun TextFormat :: "string \<Rightarrow> int list \<Rightarrow> string" where
  "TextFormat [] args = []"
| "TextFormat [c] args = [c]"
| "TextFormat (c # d # ds) args =
     (if c = CHR ''%'' then
        (if d = CHR ''%'' then CHR ''%'' # TextFormat ds args
         else if d = CHR ''i'' \<or> d = CHR ''d'' then
           (case args of
              [] \<Rightarrow> TextFormat ds []
            | a # rest \<Rightarrow> dec_int a @ TextFormat ds rest)
         else c # d # TextFormat ds args)
      else c # TextFormat (d # ds) args)"

section \<open>The game loop\<close>

text \<open>
  What the build and the library supply to a run: the macro \<^verbatim>\<open>ASSETS_PATH\<close> (defined
  outside the source file), and the handles that \<^verbatim>\<open>LoadShader\<close> and
  \<^verbatim>\<open>LoadRenderTexture\<close> return.
\<close>

record platform =
  ASSETS_PATH :: string
  LoadShader_result :: Shader
  LoadRenderTexture_result :: RenderTexture2D

text \<open>
  Lines 32 to 64, the \<^verbatim>\<open>while\<close> loop, over the frames the library reports. The result is
  the game state, the calls made, and whether the loop was left: \<open>False\<close> means that the
  frames given ran out with the loop still running (the loop never ends unless
  \<^verbatim>\<open>WindowShouldClose()\<close> answers true). The \<^verbatim>\<open>int\<close> arguments of \<^verbatim>\<open>rlTranslatef\<close> and the
  texture size in the source rectangle are converted to \<^verbatim>\<open>float\<close>.
\<close>

fun RunGame_loop ::
  "Shader \<Rightarrow> RenderTexture2D \<Rightarrow> s_game \<Rightarrow> frame list \<Rightarrow> s_game \<times> call list \<times> bool" where
  "RunGame_loop pp_shader framebuffer_texture game [] = (game, [], False)"
| "RunGame_loop pp_shader framebuffer_texture game (f # fs) =
     (if WindowShouldClose f then (game, [], True)
      else
        (let game1 = InputGame f game;
             calls =
               [BeginTextureMode framebuffer_texture,
                BeginMode2D (camera game1),
                ClearBackground SKYBLUE,
                rlPushMatrix,
                rlTranslatef (f32_of_int (size_x (window_size game1)))
                  (f32_of_int (size_y (window_size game1) * 2)) (Fin 0),
                RecursiveTreeDraw_call (fractal_tree_start_length game1)
                  (fractal_tree_start_length game1) (fractal_tree_angle game1),
                rlPopMatrix,
                EndMode2D,
                EndTextureMode,
                BeginDrawing,
                ClearBackground WHITE,
                BeginShaderMode pp_shader,
                DrawTextureRec (texture framebuffer_texture)
                  \<lparr>rect_x = Fin 0, rect_y = Fin 0,
                   rect_width = f32_of_int (tex_width (texture framebuffer_texture)),
                   rect_height = f32_of_int (- tex_height (texture framebuffer_texture))\<rparr>
                  \<lparr>vx = Fin 0, vy = Fin 0\<rparr> WHITE,
                EndShaderMode,
                EndDrawing]
         in case RunGame_loop pp_shader framebuffer_texture game1 fs of
              (game2, rest, left) \<Rightarrow> (game2, calls @ rest, left)))"

text \<open>
  Lines 25 to 67. \<^verbatim>\<open>CloseWindow()\<close> is called once the loop is left; the function has
  returned exactly when the third component is \<open>True\<close>.
\<close>

definition RunGame :: "platform \<Rightarrow> s_game \<Rightarrow> frame list \<Rightarrow> s_game \<times> call list \<times> bool" where
  "RunGame p game fs =
     (let setup =
            [LoadShader None
               (Some (TextFormat (ASSETS_PATH p @ ''postprocessing.glsl'') [330])),
             LoadRenderTexture (size_x (window_size game)) (size_y (window_size game))];
          pp_shader = LoadShader_result p;
          framebuffer_texture = LoadRenderTexture_result p
      in case RunGame_loop pp_shader framebuffer_texture game fs of
           (game1, calls, left) \<Rightarrow>
             (game1, setup @ calls @ (if left then [CloseWindow] else []), left))"

text \<open>Lines 11 to 23.\<close>

definition StartGame_init :: "s_game \<Rightarrow> s_game" where
  "StartGame_init game =
     (let game = game\<lparr>camera := (camera game)\<lparr>zoom := Fin (1 / 2)\<rparr>\<rparr>;
          game = game\<lparr>fractal_tree_angle := Fin 30\<rparr>;
          game = game\<lparr>fractal_tree_start_length := Fin 350\<rparr>
      in game)"

definition StartGame :: "platform \<Rightarrow> s_game \<Rightarrow> frame list \<Rightarrow> s_game \<times> call list \<times> bool" where
  "StartGame p game fs =
     (let c1 = [InitWindow (size_x (window_size game)) (size_y (window_size game)) (title game)];
          game = StartGame_init game;
          c2 = [SetTargetFPS 60]
      in case RunGame p game fs of
           (game1, calls, returned) \<Rightarrow> (game1, c1 @ c2 @ calls, returned))"

text \<open>Lines 69 to 71: the body is empty.\<close>

definition EndGame :: "s_game \<Rightarrow> s_game \<times> call list" where
  "EndGame game = (game, [])"

text \<open>The game states with which the loop body draws, one per iteration run.\<close>

fun loop_states :: "s_game \<Rightarrow> frame list \<Rightarrow> s_game list" where
  "loop_states game [] = []"
| "loop_states game (f # fs) =
     (if WindowShouldClose f then []
      else InputGame f game # loop_states (InputGame f game) fs)"

subsection \<open>What the library holds\<close>

text \<open>
  The library's side of the calls: the window with its OpenGL context, and the GPU
  objects created in that context. \<^verbatim>\<open>InitWindow\<close> opens the window, \<^verbatim>\<open>LoadShader\<close> and
  \<^verbatim>\<open>LoadRenderTexture\<close> create the objects whose handles they return,
  \<^verbatim>\<open>UnloadShader\<close> and \<^verbatim>\<open>UnloadRenderTexture\<close> unload one object from GPU memory, and
  \<^verbatim>\<open>CloseWindow\<close> closes the window and unloads the OpenGL context, and with the context
  every object created in it. No other call creates or releases anything. This is the
  behaviour the library documents for these calls; the library is not part of the
  sources.
\<close>

datatype resource = Window | ShaderObject Shader | RenderTarget RenderTexture2D

fun call_effect :: "platform \<Rightarrow> call \<Rightarrow> resource set \<Rightarrow> resource set" where
  "call_effect p (InitWindow w h t) held = insert Window held"
| "call_effect p (LoadShader vs fs) held = insert (ShaderObject (LoadShader_result p)) held"
| "call_effect p (LoadRenderTexture w h) held =
     insert (RenderTarget (LoadRenderTexture_result p)) held"
| "call_effect p (UnloadShader s) held = held - {ShaderObject s}"
| "call_effect p (UnloadRenderTexture t) held = held - {RenderTarget t}"
| "call_effect p CloseWindow held = {}"
| "call_effect p c held = held"

fun held_after :: "platform \<Rightarrow> call list \<Rightarrow> resource set \<Rightarrow> resource set" where
  "held_after p [] held = held"
| "held_after p (c # cs) held = held_after p cs (call_effect p c held)"

section \<open>The tree generator\<close>

text \<open>
  Modelled from the spec: \<^verbatim>\<open>RecursiveTreeDraw\<close> lives in \<^verbatim>\<open>tree.h\<close>, which is missing.
  The spec (4.1) gives the algorithm: below a termination threshold return at once;
  otherwise draw a segment of the current length, move to its far end, and recurse twice,
  rotated by plus and by minus the angle, each inside a saved and restored transform,
  with the current length scaled by a fixed shrink factor. The spec leaves the threshold
  \<open>T\<close> and the shrink factor \<open>k\<close> open, so they are parameters. The first argument bounds
  the depth of nested calls: \<open>None\<close> means that the recursion went deeper. Lengths and
  angles are real numbers here, as the spec has them.
\<close>

datatype tree_cmd =
    DrawSegment real
  | TranslateUp real
  | PushTransform
  | PopTransform
  | Rotate real

fun RecursiveTreeDraw ::
  "nat \<Rightarrow> real \<Rightarrow> real \<Rightarrow> real \<Rightarrow> real \<Rightarrow> real \<Rightarrow> tree_cmd list option" where
  "RecursiveTreeDraw 0 T k currentLength baseLength angle = None"
| "RecursiveTreeDraw (Suc n) T k currentLength baseLength angle =
     (if currentLength < T then Some []
      else
        (case RecursiveTreeDraw n T k (currentLength * k) baseLength angle of
           None \<Rightarrow> None
         | Some left \<Rightarrow>
             (case RecursiveTreeDraw n T k (currentLength * k) baseLength angle of
                None \<Rightarrow> None
              | Some right \<Rightarrow>
                  Some ([DrawSegment currentLength, TranslateUp currentLength,
                         PushTransform, Rotate angle] @ left @
                        [PopTransform, PushTransform, Rotate (- angle)] @ right @
                        [PopTransform]))))"

section \<open>Example inputs\<close>

text \<open>Concrete values at which the theorems below are instantiated.\<close>

definition example_game :: s_game where
  "example_game =
     \<lparr>window_size = \<lparr>size_x = 800, size_y = 600\<rparr>, title = ''tree'',
      camera = \<lparr>offset = \<lparr>vx = Fin 0, vy = Fin 0\<rparr>, target = \<lparr>vx = Fin 0, vy = Fin 0\<rparr>,
                rotation = Fin 0, zoom = Fin 1\<rparr>,
      fractal_tree_angle = Fin 30, fractal_tree_start_length = Fin 350\<rparr>"

definition example_platform :: platform where
  "example_platform =
     \<lparr>ASSETS_PATH = ''assets/'', LoadShader_result = \<lparr>shader_id = 3\<rparr>,
      LoadRenderTexture_result =
        \<lparr>rt_id = 1, texture = \<lparr>tex_id = 2, tex_width = 800, tex_height = 600\<rparr>\<rparr>\<rparr>"

text \<open>A frame in which the window stays open and exactly the keys \<open>ks\<close> are held.\<close>

definition frame_keys :: "KeyboardKey list \<Rightarrow> f32 \<Rightarrow> frame" where
  "frame_keys ks dt =
     \<lparr>WindowShouldClose = False, IsKeyDown = (\<lambda>k. k \<in> set ks), GetFrameTime = dt\<rparr>"

text \<open>The evaluation of the loop condition at which the close request is seen.\<close>

definition frame_close :: frame where
  "frame_close = \<lparr>WindowShouldClose = True, IsKeyDown = (\<lambda>k. False), GetFrameTime = Fin 0\<rparr>"

section \<open>Properties of the rounding\<close>

text \<open>Ties-to-even rounding keeps integers and errs by at most one half.\<close>

lemma rne_int: "rne (of_int m) = m"
  by (simp add: rne_def)

lemma rne_error: "\<bar>of_int (rne r) - r\<bar> \<le> 1 / 2"
  unfolding rne_def Let_def by (auto simp: abs_if; linarith)

lemma f32_binade_lower: "f32_binade n a = 0 \<or> 2 ^ f32_binade n a \<le> a"
  by (induction n) auto

lemma f32_binade_upper: "a < 2 ^ Suc j \<Longrightarrow> f32_binade n a \<le> j"
proof (induction n)
  case 0
  then show ?case by simp
next
  case (Suc n)
  show ?case
  proof (cases "(2::real) ^ Suc n \<le> a")
    case True
    with Suc.prems have "(2::real) ^ Suc n < 2 ^ Suc j" by linarith
    then have "Suc n < Suc j" by (simp only: power_strict_increasing_iff one_less_numeral_iff semiring_norm)
    with True show ?thesis by simp
  next
    case False
    with Suc show ?thesis by simp
  qed
qed

lemma f32_binade_ge: "2 ^ j \<le> a \<Longrightarrow> j \<le> n \<Longrightarrow> j \<le> f32_binade n a"
proof (induction n)
  case 0
  then show ?case by simp
next
  case (Suc n)
  show ?case
  proof (cases "(2::real) ^ Suc n \<le> a")
    case True
    with Suc.prems show ?thesis by simp
  next
    case False
    with Suc.prems have "j \<noteq> Suc n" by auto
    with Suc.prems have "j \<le> n" by simp
    with Suc False show ?thesis by simp
  qed
qed

lemma f32_binade_eq:
  "2 ^ j \<le> a \<Longrightarrow> a < 2 ^ Suc j \<Longrightarrow> j \<le> n \<Longrightarrow> f32_binade n a = j"
  using f32_binade_ge [of j a n] f32_binade_upper [of a j n] by simp

lemma f32_quantum_eq:
  "2 ^ j \<le> \<bar>x\<bar> * 2 ^ 126 \<Longrightarrow> \<bar>x\<bar> * 2 ^ 126 < 2 ^ Suc j \<Longrightarrow> j \<le> 253 \<Longrightarrow>
     f32_quantum x = 2 ^ j / 2 ^ 149"
  by (simp add: f32_quantum_def f32_binade_eq)

lemma round32_eval:
  assumes "2 ^ j \<le> \<bar>x\<bar> * 2 ^ 126" and "\<bar>x\<bar> * 2 ^ 126 < 2 ^ Suc j" and "j \<le> 253"
  shows "round32 x =
     (let y = of_int (rne (x / (2 ^ j / 2 ^ 149))) * (2 ^ j / 2 ^ 149)
      in if 2 ^ 128 \<le> \<bar>y\<bar> then (if 0 < x then PInf else NInf) else Fin y)"
  unfolding round32_def f32_quantum_eq [OF assms] Let_def ..

text \<open>Representable values round to themselves.\<close>

lemma round32_exact:
  assumes x: "x = of_int m * 2 ^ k / 2 ^ 149" and m: "\<bar>m\<bar> < 2 ^ 24" and k: "k \<le> 104 + 149"
  shows "round32 x = Fin x"
proof -
  define i where "i = f32_binade 253 (\<bar>x\<bar> * 2 ^ 126)"
  have q: "f32_quantum x = 2 ^ i / 2 ^ 149"
    by (simp add: f32_quantum_def i_def)
  have ax: "\<bar>x\<bar> * 2 ^ 126 = of_int \<bar>m\<bar> * 2 ^ k / 2 ^ 23"
    by (simp add: x abs_mult)
  have "i \<le> k"
  proof (cases "i = 0")
    case True
    then show ?thesis by simp
  next
    case False
    with f32_binade_lower [of 253 "\<bar>x\<bar> * 2 ^ 126"] have "2 ^ i \<le> \<bar>x\<bar> * 2 ^ 126"
      by (simp add: i_def)
    also have "\<dots> = of_int \<bar>m\<bar> * 2 ^ k / 2 ^ 23" by (rule ax)
    also have "\<dots> < 2 ^ 24 * 2 ^ k / 2 ^ 23"
    proof -
      from m have "(of_int \<bar>m\<bar> :: real) < 2 ^ 24"
        by (metis of_int_less_numeral_power_cancel_iff)
      then show ?thesis by (simp add: divide_strict_right_mono)
    qed
    also have "\<dots> = 2 ^ Suc k" by simp
    finally have "(2::real) ^ i < 2 ^ Suc k" .
    then have "i < Suc k" by (simp only: power_strict_increasing_iff one_less_numeral_iff semiring_norm)
    then show ?thesis by simp
  qed
  then obtain d where d: "k = i + d" using le_Suc_ex by blast
  have "x / (2 ^ i / 2 ^ 149) = of_int (m * 2 ^ d)"
    by (simp add: x d power_add)
  then have "of_int (rne (x / (2 ^ i / 2 ^ 149))) * (2 ^ i / 2 ^ 149) = x"
    by (simp only: rne_int) (simp add: x d power_add)
  then have r: "of_int (rne (x / f32_quantum x)) * f32_quantum x = x"
    by (simp only: q)
  have "\<bar>x\<bar> < 2 ^ 128"
  proof -
    from m have "(of_int \<bar>m\<bar> :: real) < 2 ^ 24"
      by (metis of_int_less_numeral_power_cancel_iff)
    moreover have "(2::real) ^ k \<le> 2 ^ 253" using k by (intro power_increasing) simp_all
    ultimately have "of_int \<bar>m\<bar> * (2::real) ^ k < 2 ^ 24 * 2 ^ 253"
      by (intro mult_less_le_imp_less) simp_all
    then have "of_int \<bar>m\<bar> * (2::real) ^ k / 2 ^ 149 < 2 ^ 24 * 2 ^ 253 / 2 ^ 149"
      by (simp add: divide_strict_right_mono)
    then show ?thesis by (simp add: x abs_mult)
  qed
  then show ?thesis
    by (simp add: round32_def Let_def r)
qed

lemma round32_int: "\<bar>n\<bar> < 2 ^ 24 \<Longrightarrow> round32 (of_int n) = Fin (of_int n)"
  by (rule round32_exact [where m = n and k = 149]) simp_all

lemma round32_0: "round32 0 = Fin 0"
  using round32_int [of 0] by simp

text \<open>Rounding error: half a quantum of the binade.\<close>

lemma round32_error:
  assumes "\<bar>x\<bar> * 2 ^ 126 < 2 ^ Suc j" and "j \<le> 252"
  shows "\<exists>y. round32 x = Fin y \<and> \<bar>y - x\<bar> \<le> 2 ^ j / 2 ^ 150"
proof -
  define i where "i = f32_binade 253 (\<bar>x\<bar> * 2 ^ 126)"
  define q :: real where "q = 2 ^ i / 2 ^ 149"
  define y where "y = of_int (rne (x / q)) * q"
  have fq: "f32_quantum x = q"
    by (simp add: f32_quantum_def i_def q_def)
  have "i \<le> j" unfolding i_def using assms(1) by (rule f32_binade_upper)
  then have "(2::real) ^ i \<le> 2 ^ j" by (intro power_increasing) simp_all
  then have qj: "q \<le> 2 ^ j / 2 ^ 149" by (simp add: q_def divide_right_mono)
  have qpos: "0 < q" by (simp add: q_def)
  have "y - x = (of_int (rne (x / q)) - x / q) * q"
    using qpos by (simp add: y_def field_simps)
  then have "\<bar>y - x\<bar> = \<bar>of_int (rne (x / q)) - x / q\<bar> * q"
    using qpos by (simp add: abs_mult)
  also have "\<dots> \<le> 1 / 2 * q"
    using rne_error [of "x / q"] qpos by (intro mult_right_mono) simp_all
  also have "\<dots> \<le> 2 ^ j / 2 ^ 150" using qj by simp
  finally have err: "\<bar>y - x\<bar> \<le> 2 ^ j / 2 ^ 150" .
  have "(2::real) ^ Suc j \<le> 2 ^ 253" using assms(2) by (intro power_increasing) simp_all
  with assms(1) have "\<bar>x\<bar> * 2 ^ 126 < 2 ^ 253" by linarith
  then have xb: "\<bar>x\<bar> < 2 ^ 127" by simp
  have "(2::real) ^ j \<le> 2 ^ 252" using assms(2) by (intro power_increasing) simp_all
  then have "(2::real) ^ j / 2 ^ 150 \<le> 2 ^ 252 / 2 ^ 150" by (simp add: divide_right_mono)
  with err have "\<bar>y - x\<bar> \<le> 2 ^ 102" by simp
  with xb have "\<bar>y\<bar> < 2 ^ 128" by simp
  then have "round32 x = Fin y"
    by (simp add: round32_def fq Let_def y_def [symmetric])
  with err show ?thesis by blast
qed


text \<open>Rounding is symmetric about zero.\<close>

lemma rne_minus: "rne (- r) = - rne r"
proof (cases "r = of_int \<lfloor>r\<rfloor>")
  case True
  then have "- r = of_int (- \<lfloor>r\<rfloor>)" by simp
  then have "rne (- r) = - \<lfloor>r\<rfloor>" by (simp only: rne_int)
  moreover from True have "rne r = \<lfloor>r\<rfloor>" by (metis rne_int)
  ultimately show ?thesis by simp
next
  case False
  have lo: "of_int \<lfloor>r\<rfloor> < r" using False of_int_floor_le [of r] by linarith
  have hi: "r < of_int \<lfloor>r\<rfloor> + 1" by linarith
  have f: "\<lfloor>- r\<rfloor> = - \<lfloor>r\<rfloor> - 1"
  proof (rule floor_unique)
    show "of_int (- \<lfloor>r\<rfloor> - 1) \<le> - r"
      unfolding of_int_diff of_int_minus of_int_1 using hi by linarith
    show "- r < of_int (- \<lfloor>r\<rfloor> - 1) + 1"
      unfolding of_int_diff of_int_minus of_int_1 using lo by linarith
  qed
  define g where "g = \<lfloor>r\<rfloor>"
  define d where "d = r - of_int g"
  have r: "r = of_int g + d" by (simp add: d_def)
  have e: "even (- g - 1) \<longleftrightarrow> odd g" by simp
  show ?thesis
    unfolding rne_def Let_def f g_def [symmetric]
    by (simp add: r e)
qed


lemma f32_quantum_minus: "f32_quantum (- x) = f32_quantum x"
  by (simp add: f32_quantum_def)

lemma round32_minus: "round32 (- x) = f32_neg (round32 x)"
proof (cases "x = 0")
  case True
  then show ?thesis by (simp add: round32_0)
next
  case False
  have "- x / f32_quantum x = - (x / f32_quantum x)" by simp
  then have "rne (- x / f32_quantum x) = - rne (x / f32_quantum x)"
    by (simp only: rne_minus)
  with False show ?thesis
    by (simp add: round32_def Let_def f32_quantum_minus)
qed

lemma f32_representable_minus: "f32_representable (- x) \<longleftrightarrow> f32_representable x"
  by (cases "round32 x") (simp_all add: f32_representable_def round32_minus)

lemma round32_1: "round32 1 = Fin 1"
  using round32_int [of 1] by simp

lemma round32_minus_1: "round32 (- 1) = Fin (- 1)"
  using round32_int [of "- 1"] by simp

lemma f32_of_int_small: "\<bar>n\<bar> < 2 ^ 24 \<Longrightarrow> f32_of_int n = Fin (of_int n)"
  by (simp add: f32_of_int_def round32_int)

text \<open>Some binary32 values, and the binary32 value nearest to a sixtieth.\<close>

lemma f32_representable_example:
  "f32_representable (5 / 2)" "f32_representable (65 / 2)" "f32_representable (55 / 2)"
  unfolding f32_representable_def
  by (rule round32_exact [where m = 5 and k = 148], simp_all)
    (rule round32_exact [where m = 65 and k = 148], simp_all,
     rule round32_exact [where m = 55 and k = 148], simp_all)

lemma round32_sixtieth: "round32 (1 / 60) = Fin (8947849 / 2 ^ 29)"
  by (subst round32_eval [of 120]) (simp_all add: rne_def Let_def)

section \<open>Properties of the input handler\<close>

lemma InputGame_moveVector_x:
  "vx (InputGame_moveVector f) =
     (if IsKeyDown f KEY_D then Fin (- 1) else if IsKeyDown f KEY_A then Fin 1 else Fin 0)"
  by (simp add: InputGame_moveVector_def Let_def f32_sub_def round32_1 round32_minus_1)

lemma InputGame_moveVector_y:
  "vy (InputGame_moveVector f) =
     (if IsKeyDown f KEY_S then Fin (- 1) else if IsKeyDown f KEY_W then Fin 1 else Fin 0)"
  by (simp add: InputGame_moveVector_def Let_def f32_sub_def round32_1 round32_minus_1)

lemma InputGame_offset:
  "offset (camera (InputGame f game)) =
     \<lparr>vx = f32_add (vx (offset (camera game))) (vx (InputGame_moveVector f)),
      vy = f32_add (vy (offset (camera game))) (vy (InputGame_moveVector f))\<rparr>"
  by (simp add: InputGame_def InputGame_angle_def InputGame_camera_def Let_def Vector2Add_def)

lemma InputGame_angle_value:
  "fractal_tree_angle (InputGame f game) =
     (if IsKeyDown f KEY_UP then
        f32_add (fractal_tree_angle game) (f32_mul (Fin 10) (GetFrameTime f))
      else if IsKeyDown f KEY_DOWN then
        f32_add (fractal_tree_angle game) (f32_mul (Fin (- 10)) (GetFrameTime f))
      else fractal_tree_angle game)"
  by (simp add: InputGame_def InputGame_angle_def InputGame_camera_def Let_def)

lemma InputGame_moveVector_frame_time:
  "InputGame_moveVector (f\<lparr>GetFrameTime := dt\<rparr>) = InputGame_moveVector f"
  by (simp add: InputGame_moveVector_def Let_def)

subsection \<open>The camera offset\<close>

text \<open>Adding -1, 0 or 1 to an integer below \<open>2 ^ 24 - 1\<close> in magnitude is exact.\<close>

lemma f32_add_int_unit:
  assumes "\<bar>a\<bar> < 2 ^ 24 - 1" and "\<delta> \<in> {- 1, 0, 1}"
  shows "f32_add (Fin (of_int a)) (Fin (of_int \<delta>)) = Fin (of_int a + of_int \<delta>)"
proof -
  from assms have "\<bar>a + \<delta>\<bar> < 2 ^ 24" by auto
  then have "round32 (of_int (a + \<delta>)) = Fin (of_int (a + \<delta>))" by (rule round32_int)
  then show ?thesis by simp
qed

text \<open>
  Claim C2. In every call of \<open>InputGame\<close>, for every frame time, the vector added to the
  camera offset is the accumulator itself, each component being -1, 0 or 1: the new
  horizontal offset is the old one plus -1 (D held), plus 1 (A held without D) or plus 0,
  and likewise the vertical one with S and W. The product with the camera speed and the
  frame time does not reach the offset: changing the frame time changes nothing in the
  new offset. For an offset with integer components below \<open>2 ^ 24 - 1\<close> in magnitude the
  sums are exact, so the offset moves by the whole unit step.
\<close>

theorem InputGame_offset_unscaled:
  "offset (camera (InputGame f game)) =
     \<lparr>vx = f32_add (vx (offset (camera game)))
            (if IsKeyDown f KEY_D then Fin (- 1) else if IsKeyDown f KEY_A then Fin 1 else Fin 0),
      vy = f32_add (vy (offset (camera game)))
            (if IsKeyDown f KEY_S then Fin (- 1) else if IsKeyDown f KEY_W then Fin 1 else Fin 0)\<rparr> \<and>
   vx (InputGame_moveVector f) \<in> {Fin (- 1), Fin 0, Fin 1} \<and>
   vy (InputGame_moveVector f) \<in> {Fin (- 1), Fin 0, Fin 1} \<and>
   offset (camera (InputGame (f\<lparr>GetFrameTime := dt\<rparr>) game)) =
     offset (camera (InputGame f game)) \<and>
   (\<forall>a b. offset (camera game) = \<lparr>vx = Fin (of_int a), vy = Fin (of_int b)\<rparr> \<longrightarrow>
      \<bar>a\<bar> < 2 ^ 24 - 1 \<longrightarrow> \<bar>b\<bar> < 2 ^ 24 - 1 \<longrightarrow>
      offset (camera (InputGame f game)) =
        \<lparr>vx = Fin (of_int a +
                (if IsKeyDown f KEY_D then - 1 else if IsKeyDown f KEY_A then 1 else 0)),
         vy = Fin (of_int b +
                (if IsKeyDown f KEY_S then - 1 else if IsKeyDown f KEY_W then 1 else 0))\<rparr>)"
proof -
  have 1: "offset (camera (InputGame f game)) =
     \<lparr>vx = f32_add (vx (offset (camera game)))
            (if IsKeyDown f KEY_D then Fin (- 1) else if IsKeyDown f KEY_A then Fin 1 else Fin 0),
      vy = f32_add (vy (offset (camera game)))
            (if IsKeyDown f KEY_S then Fin (- 1) else if IsKeyDown f KEY_W then Fin 1 else Fin 0)\<rparr>"
    by (simp only: InputGame_offset InputGame_moveVector_x InputGame_moveVector_y)
  have 2: "vx (InputGame_moveVector f) \<in> {Fin (- 1), Fin 0, Fin 1}"
    by (simp add: InputGame_moveVector_x)
  have 3: "vy (InputGame_moveVector f) \<in> {Fin (- 1), Fin 0, Fin 1}"
    by (simp add: InputGame_moveVector_y)
  have 4: "offset (camera (InputGame (f\<lparr>GetFrameTime := dt\<rparr>) game)) =
     offset (camera (InputGame f game))"
    by (simp add: InputGame_offset InputGame_moveVector_frame_time)
  have 5: "offset (camera (InputGame f game)) =
        \<lparr>vx = Fin (of_int a +
                (if IsKeyDown f KEY_D then - 1 else if IsKeyDown f KEY_A then 1 else 0)),
         vy = Fin (of_int b +
                (if IsKeyDown f KEY_S then - 1 else if IsKeyDown f KEY_W then 1 else 0))\<rparr>"
    if o: "offset (camera game) = \<lparr>vx = Fin (of_int a), vy = Fin (of_int b)\<rparr>"
      and a: "\<bar>a\<bar> < 2 ^ 24 - 1" and b: "\<bar>b\<bar> < 2 ^ 24 - 1" for a b
    using f32_add_int_unit [OF a, of "- 1"] f32_add_int_unit [OF a, of 0]
      f32_add_int_unit [OF a, of 1] f32_add_int_unit [OF b, of "- 1"]
      f32_add_int_unit [OF b, of 0] f32_add_int_unit [OF b, of 1]
    by (simp add: 1 o del: f32_add.simps)
  from 1 2 3 4 5 show ?thesis by blast
qed

theorem InputGame_offset_unscaled_witness:
  "offset (camera example_game) = \<lparr>vx = Fin (of_int 0), vy = Fin (of_int 0)\<rparr> \<and>
   \<bar>0 :: int\<bar> < 2 ^ 24 - 1 \<and>
   offset (camera (InputGame (frame_keys [KEY_A, KEY_S, KEY_W] (Fin (1 / 64))) example_game)) =
     \<lparr>vx = Fin 1, vy = Fin (- 1)\<rparr>"
proof -
  have o: "offset (camera example_game) = \<lparr>vx = Fin (of_int 0), vy = Fin (of_int 0)\<rparr>"
    by (simp add: example_game_def)
  have z: "\<bar>0 :: int\<bar> < 2 ^ 24 - 1" by simp
  from InputGame_offset_unscaled
    [of "frame_keys [KEY_A, KEY_S, KEY_W] (Fin (1 / 64))" example_game "Fin 0"] o z
  have "offset (camera (InputGame (frame_keys [KEY_A, KEY_S, KEY_W] (Fin (1 / 64))) example_game)) =
     \<lparr>vx = Fin (of_int 0 +
         (if IsKeyDown (frame_keys [KEY_A, KEY_S, KEY_W] (Fin (1 / 64))) KEY_D then - 1
          else if IsKeyDown (frame_keys [KEY_A, KEY_S, KEY_W] (Fin (1 / 64))) KEY_A then 1 else 0)),
      vy = Fin (of_int 0 +
         (if IsKeyDown (frame_keys [KEY_A, KEY_S, KEY_W] (Fin (1 / 64))) KEY_S then - 1
          else if IsKeyDown (frame_keys [KEY_A, KEY_S, KEY_W] (Fin (1 / 64))) KEY_W then 1 else 0))\<rparr>"
    by blast
  then show ?thesis using o by (simp add: frame_keys_def)
qed

text \<open>
  Claim C3. The key checks of an axis exclude each other and the first match wins: D
  ("right") subtracts one from the horizontal accumulator, A ("left") adds one only when D
  is not held; S ("down") subtracts one from the vertical accumulator, W ("up") adds one
  only when S is not held. The two effects of an axis never add up, and the camera
  offset moves by exactly this vector.
\<close>

theorem InputGame_key_priority:
  "vx (InputGame_moveVector f) =
     (if IsKeyDown f KEY_D then Fin (- 1) else if IsKeyDown f KEY_A then Fin 1 else Fin 0) \<and>
   vy (InputGame_moveVector f) =
     (if IsKeyDown f KEY_S then Fin (- 1) else if IsKeyDown f KEY_W then Fin 1 else Fin 0) \<and>
   offset (camera (InputGame f game)) =
     \<lparr>vx = f32_add (vx (offset (camera game)))
            (if IsKeyDown f KEY_D then Fin (- 1) else if IsKeyDown f KEY_A then Fin 1 else Fin 0),
      vy = f32_add (vy (offset (camera game)))
            (if IsKeyDown f KEY_S then Fin (- 1) else if IsKeyDown f KEY_W then Fin 1 else Fin 0)\<rparr>"
  by (simp only: InputGame_offset InputGame_moveVector_x InputGame_moveVector_y simp_thms)

subsection \<open>The branch angle\<close>

text \<open>
  Claim C4, as amended. With the increase key (UP) held the new angle is the rounded sum
  of the old angle and the rounded product of 10 and the frame time; otherwise, with the
  decrease key (DOWN) held, it is the rounded sum of the old angle and the rounded
  product of -10 and the frame time; with neither held the angle stays. This holds for
  every angle and every frame time, so nothing clamps the result. Whenever ten times the
  frame time and the exact new angle are binary32 values, the change is exactly ten
  times the frame time.
\<close>

theorem InputGame_angle_rate:
  "fractal_tree_angle (InputGame f game) =
     (if IsKeyDown f KEY_UP then
        f32_add (fractal_tree_angle game) (f32_mul (Fin 10) (GetFrameTime f))
      else if IsKeyDown f KEY_DOWN then
        f32_add (fractal_tree_angle game) (f32_mul (Fin (- 10)) (GetFrameTime f))
      else fractal_tree_angle game) \<and>
   (\<forall>a d. fractal_tree_angle game = Fin a \<longrightarrow> GetFrameTime f = Fin d \<longrightarrow>
      IsKeyDown f KEY_UP \<longrightarrow>
      f32_representable (10 * d) \<longrightarrow> f32_representable (a + 10 * d) \<longrightarrow>
      fractal_tree_angle (InputGame f game) = Fin (a + 10 * d)) \<and>
   (\<forall>a d. fractal_tree_angle game = Fin a \<longrightarrow> GetFrameTime f = Fin d \<longrightarrow>
      \<not> IsKeyDown f KEY_UP \<longrightarrow> IsKeyDown f KEY_DOWN \<longrightarrow>
      f32_representable (10 * d) \<longrightarrow> f32_representable (a - 10 * d) \<longrightarrow>
      fractal_tree_angle (InputGame f game) = Fin (a - 10 * d))"
proof -
  have up: "fractal_tree_angle (InputGame f game) = Fin (a + 10 * d)"
    if "fractal_tree_angle game = Fin a" "GetFrameTime f = Fin d" "IsKeyDown f KEY_UP"
      "f32_representable (10 * d)" "f32_representable (a + 10 * d)" for a d
    using that by (simp add: InputGame_angle_value f32_representable_def)
  have down: "fractal_tree_angle (InputGame f game) = Fin (a - 10 * d)"
    if "fractal_tree_angle game = Fin a" "GetFrameTime f = Fin d" "\<not> IsKeyDown f KEY_UP"
      "IsKeyDown f KEY_DOWN" "f32_representable (10 * d)" "f32_representable (a - 10 * d)" for a d
  proof -
    from that(5) have "f32_representable (- (10 * d))"
      by (simp only: f32_representable_minus)
    then have "round32 (- (10 * d)) = Fin (- (10 * d))"
      by (simp only: f32_representable_def)
    with that show ?thesis by (simp add: InputGame_angle_value f32_representable_def)
  qed
  from InputGame_angle_value [of f game] up down show ?thesis by blast
qed

theorem InputGame_angle_rate_witness:
  "fractal_tree_angle example_game = Fin 30 \<and>
   f32_representable (10 * (1 / 4)) \<and>
   f32_representable (30 + 10 * (1 / 4)) \<and>
   f32_representable (30 - 10 * (1 / 4)) \<and>
   fractal_tree_angle (InputGame (frame_keys [KEY_UP, KEY_DOWN] (Fin (1 / 4))) example_game) =
     Fin (65 / 2) \<and>
   fractal_tree_angle (InputGame (frame_keys [KEY_DOWN] (Fin (1 / 4))) example_game) =
     Fin (55 / 2)"
proof -
  have a: "fractal_tree_angle example_game = Fin 30"
    by (simp add: example_game_def)
  have r: "f32_representable (10 * (1 / 4))" "f32_representable (30 + 10 * (1 / 4))"
    "f32_representable (30 - 10 * (1 / 4))"
    using f32_representable_example by simp_all
  have u: "fractal_tree_angle
      (InputGame (frame_keys [KEY_UP, KEY_DOWN] (Fin (1 / 4))) example_game) =
      Fin (30 + 10 * (1 / 4))"
    by (rule InputGame_angle_rate [THEN conjunct2, THEN conjunct1, rule_format])
      (simp_all add: a frame_keys_def f32_representable_example)
  have d: "fractal_tree_angle (InputGame (frame_keys [KEY_DOWN] (Fin (1 / 4))) example_game) =
      Fin (30 - 10 * (1 / 4))"
    by (rule InputGame_angle_rate [THEN conjunct2, THEN conjunct2, rule_format])
      (simp_all add: a frame_keys_def f32_representable_example)
  from a r u d show ?thesis by simp
qed

text \<open>
  The claim as stated has the angle change by exactly ten times the frame time. At the
  binary32 value nearest to a sixtieth of a second, from the angle 30 with the increase
  key held, the code stores 15816021 / 2 ^ 19, which is not 30 plus ten times that frame
  time.
\<close>

theorem InputGame_angle_rate_counterexample:
  "f32_representable (8947849 / 2 ^ 29) \<and>
   fractal_tree_angle (InputGame (frame_keys [KEY_UP] (Fin (8947849 / 2 ^ 29))) example_game) =
     Fin (15816021 / 2 ^ 19) \<and>
   (15816021 / 2 ^ 19 :: real) \<noteq> 30 + 10 * (8947849 / 2 ^ 29)"
proof -
  have 1: "f32_representable (8947849 / 2 ^ 29)"
    unfolding f32_representable_def
    by (rule round32_exact [where m = 8947849 and k = 120]) simp_all
  have p: "f32_mul (Fin 10) (Fin (8947849 / 2 ^ 29)) = Fin (11184811 / 2 ^ 26)"
    unfolding f32_mul.simps
    by (subst round32_eval [of 123]) (simp_all add: rne_def Let_def)
  have s: "f32_add (Fin 30) (Fin (11184811 / 2 ^ 26)) = Fin (15816021 / 2 ^ 19)"
    unfolding f32_add.simps
    by (subst round32_eval [of 130]) (simp_all add: rne_def Let_def)
  have k: "IsKeyDown (frame_keys [KEY_UP] (Fin (8947849 / 2 ^ 29))) KEY_UP"
    "GetFrameTime (frame_keys [KEY_UP] (Fin (8947849 / 2 ^ 29))) = Fin (8947849 / 2 ^ 29)"
    "fractal_tree_angle example_game = Fin 30"
    by (simp_all add: frame_keys_def example_game_def)
  have 2: "fractal_tree_angle
      (InputGame (frame_keys [KEY_UP] (Fin (8947849 / 2 ^ 29))) example_game) =
     Fin (15816021 / 2 ^ 19)"
    by (simp only: InputGame_angle_value k if_True p s)
  have 3: "(15816021 / 2 ^ 19 :: real) \<noteq> 30 + 10 * (8947849 / 2 ^ 29)" by simp
  from 1 2 3 show ?thesis by blast
qed

subsection \<open>Holding the increase key\<close>

lemma InputGame_up_only:
  assumes "IsKeyDown f = (\<lambda>k. k = KEY_UP)"
  shows "fractal_tree_angle (InputGame f game) =
           f32_add (fractal_tree_angle game) (f32_mul (Fin 10) (GetFrameTime f))"
    and "offset (camera game) = \<lparr>vx = Fin 0, vy = Fin 0\<rparr> \<Longrightarrow>
           offset (camera (InputGame f game)) = \<lparr>vx = Fin 0, vy = Fin 0\<rparr>"
  using assms
  by (simp_all add: InputGame_angle_value InputGame_offset InputGame_moveVector_x
      InputGame_moveVector_y round32_0)

lemma elapsed_nonneg:
  "\<forall>f\<in>set fs. 0 \<le> f32_value (GetFrameTime f) \<Longrightarrow> 0 \<le> elapsed fs"
  by (induction fs) auto

lemma angle_step:
  assumes d: "0 \<le> d" "10 * d \<le> 5" and a: "\<bar>a\<bar> \<le> 40"
  shows "\<exists>a'. f32_add (Fin a) (f32_mul (Fin 10) (Fin d)) = Fin a' \<and>
           \<bar>a' - (a + 10 * d)\<bar> \<le> 1 / 2 ^ 18"
proof -
  have "\<bar>10 * d\<bar> * 2 ^ 126 < 2 ^ Suc 128"
  proof -
    from d have "\<bar>10 * d\<bar> \<le> 5" by simp
    then have "\<bar>10 * d\<bar> * 2 ^ 126 \<le> 5 * 2 ^ 126" by (rule mult_right_mono) simp
    also have "\<dots> < (2::real) ^ Suc 128" by simp
    finally show ?thesis .
  qed
  from round32_error [OF this] obtain p where
    p: "round32 (10 * d) = Fin p" and pe: "\<bar>p - 10 * d\<bar> \<le> 2 ^ 128 / 2 ^ 150"
    by auto
  from pe have "\<bar>p - 10 * d\<bar> \<le> 1" by simp
  with d have pb: "\<bar>p\<bar> \<le> 6" by linarith
  have "\<bar>a + p\<bar> * 2 ^ 126 < 2 ^ Suc 131"
  proof -
    from a pb have "\<bar>a + p\<bar> \<le> 46" by linarith
    then have "\<bar>a + p\<bar> * 2 ^ 126 \<le> 46 * 2 ^ 126" by (rule mult_right_mono) simp
    also have "\<dots> < (2::real) ^ Suc 131" by simp
    finally show ?thesis .
  qed
  from round32_error [OF this] obtain a' where
    a': "round32 (a + p) = Fin a'" and ae: "\<bar>a' - (a + p)\<bar> \<le> 2 ^ 131 / 2 ^ 150"
    by auto
  have "\<bar>a' - (a + 10 * d)\<bar> \<le> \<bar>a' - (a + p)\<bar> + \<bar>p - 10 * d\<bar>" by linarith
  also have "\<dots> \<le> 2 ^ 131 / 2 ^ 150 + 2 ^ 128 / 2 ^ 150" using ae pe by (rule add_mono)
  also have "\<dots> \<le> (1::real) / 2 ^ 18" by simp
  finally have "\<bar>a' - (a + 10 * d)\<bar> \<le> 1 / 2 ^ 18" .
  moreover have "f32_add (Fin a) (f32_mul (Fin 10) (Fin d)) = Fin a'"
    by (simp add: p a')
  ultimately show ?thesis by blast
qed

lemma InputGame_up_run:
  assumes "\<forall>f\<in>set fs. IsKeyDown f = (\<lambda>k. k = KEY_UP)"
    and "\<forall>f\<in>set fs. f32_finite (GetFrameTime f) \<and> 0 \<le> f32_value (GetFrameTime f)"
    and "fractal_tree_angle game = Fin a"
    and "\<bar>a - t\<bar> \<le> real c / 2 ^ 18"
    and "30 \<le> t"
    and "t + 10 * elapsed fs \<le> 35"
    and "c + length fs \<le> 2 ^ 20"
    and "offset (camera game) = \<lparr>vx = Fin 0, vy = Fin 0\<rparr>"
  shows "\<exists>a'. fractal_tree_angle (InputGame_seq game fs) = Fin a' \<and>
           \<bar>a' - (t + 10 * elapsed fs)\<bar> \<le> real (c + length fs) / 2 ^ 18 \<and>
           offset (camera (InputGame_seq game fs)) = \<lparr>vx = Fin 0, vy = Fin 0\<rparr>"
  using assms
proof (induction fs arbitrary: game a t c)
  case Nil
  then show ?case by simp
next
  case (Cons f fs)
  from Cons.prems(2) obtain d where d: "GetFrameTime f = Fin d" and d0: "0 \<le> d"
    by (cases "GetFrameTime f") auto
  from Cons.prems(2) have e0: "0 \<le> elapsed fs" by (intro elapsed_nonneg) simp
  from Cons.prems(6) have t35: "t + 10 * d + 10 * elapsed fs \<le> 35"
    by (simp add: d algebra_simps)
  with e0 Cons.prems(5) have d5: "10 * d \<le> 5" by linarith
  from Cons.prems(7) have "real c \<le> 2 ^ 20"
    by (metis add_leD1 of_nat_le_iff of_nat_numeral of_nat_power)
  then have "real c / 2 ^ 18 \<le> 4" by simp
  with Cons.prems(4) have "\<bar>a - t\<bar> \<le> 4" by linarith
  moreover from t35 d0 e0 have "t \<le> 35" by linarith
  ultimately have a40: "\<bar>a\<bar> \<le> 40" using Cons.prems(5) by linarith
  from angle_step [OF d0 d5 a40] obtain a1 where
    a1: "f32_add (Fin a) (f32_mul (Fin 10) (Fin d)) = Fin a1"
    and e1: "\<bar>a1 - (a + 10 * d)\<bar> \<le> 1 / 2 ^ 18"
    by blast
  from Cons.prems(1) have up: "IsKeyDown f = (\<lambda>k. k = KEY_UP)" by simp
  have g1: "fractal_tree_angle (InputGame f game) = Fin a1"
    by (simp only: InputGame_up_only(1) [OF up] Cons.prems(3) d a1)
  have o1: "offset (camera (InputGame f game)) = \<lparr>vx = Fin 0, vy = Fin 0\<rparr>"
    using up Cons.prems(8) by (rule InputGame_up_only(2))
  have "\<bar>a1 - (t + 10 * d)\<bar> \<le> \<bar>a1 - (a + 10 * d)\<bar> + \<bar>a - t\<bar>" by linarith
  also have "\<dots> \<le> 1 / 2 ^ 18 + real c / 2 ^ 18" using e1 Cons.prems(4) by (rule add_mono)
  also have "\<dots> = real (Suc c) / 2 ^ 18" by (simp add: field_simps)
  finally have b1: "\<bar>a1 - (t + 10 * d)\<bar> \<le> real (Suc c) / 2 ^ 18" .
  have "\<exists>a'. fractal_tree_angle (InputGame_seq (InputGame f game) fs) = Fin a' \<and>
      \<bar>a' - (t + 10 * d + 10 * elapsed fs)\<bar> \<le> real (Suc c + length fs) / 2 ^ 18 \<and>
      offset (camera (InputGame_seq (InputGame f game) fs)) = \<lparr>vx = Fin 0, vy = Fin 0\<rparr>"
  proof (rule Cons.IH [OF _ _ g1 b1 _ t35 _ o1])
    show "\<forall>f\<in>set fs. IsKeyDown f = (\<lambda>k. k = KEY_UP)" using Cons.prems(1) by simp
    show "\<forall>f\<in>set fs. f32_finite (GetFrameTime f) \<and> 0 \<le> f32_value (GetFrameTime f)"
      using Cons.prems(2) by simp
    show "30 \<le> t + 10 * d" using Cons.prems(5) d0 by linarith
    show "Suc c + length fs \<le> 2 ^ 20" using Cons.prems(7) by simp
  qed
  then show ?case by (simp add: d algebra_simps)
qed

text \<open>
  Claim C5, as amended. From a state with angle 30, starting length 350 and camera offset
  (0, 0), any sequence of at most \<open>2 ^ 20\<close> calls of \<open>InputGame\<close> in which only the
  increase key is held and whose frame times are finite, not negative and add up to half
  a second ends with a finite angle within \<open>n / 2 ^ 18\<close> of 35, where \<open>n\<close> is the number of
  calls, and with the offset still (0, 0).
\<close>

theorem InputGame_up_half_second:
  assumes "fractal_tree_angle game = Fin 30"
    and "fractal_tree_start_length game = Fin 350"
    and "offset (camera game) = \<lparr>vx = Fin 0, vy = Fin 0\<rparr>"
    and "\<forall>f\<in>set fs. IsKeyDown f = (\<lambda>k. k = KEY_UP)"
    and "\<forall>f\<in>set fs. f32_finite (GetFrameTime f) \<and> 0 \<le> f32_value (GetFrameTime f)"
    and "elapsed fs = 1 / 2"
    and "length fs \<le> 2 ^ 20"
  shows "\<exists>a. fractal_tree_angle (InputGame_seq game fs) = Fin a \<and>
           \<bar>a - 35\<bar> \<le> real (length fs) / 2 ^ 18 \<and>
           offset (camera (InputGame_seq game fs)) = \<lparr>vx = Fin 0, vy = Fin 0\<rparr>"
  using InputGame_up_run [OF assms(4) assms(5) assms(1), of 30 0] assms(3,6,7) by simp

text \<open>Three frames of a quarter, an eighth and an eighth of a second end at exactly 35.\<close>

lemma InputGame_up_half_second_example:
  "fractal_tree_angle (InputGame_seq example_game
     [frame_keys [KEY_UP] (Fin (1 / 4)), frame_keys [KEY_UP] (Fin (1 / 8)),
      frame_keys [KEY_UP] (Fin (1 / 8))]) = Fin 35"
proof -
  have m: "f32_mul (Fin 10) (Fin (1 / 4)) = Fin (5 / 2)"
    "f32_mul (Fin 10) (Fin (1 / 8)) = Fin (5 / 4)"
    unfolding f32_mul.simps
    by (subst round32_eval [of 127], simp_all add: rne_def Let_def)
      (subst round32_eval [of 126], simp_all add: rne_def Let_def)
  have s: "f32_add (Fin 30) (Fin (5 / 2)) = Fin (65 / 2)"
    "f32_add (Fin (65 / 2)) (Fin (5 / 4)) = Fin (135 / 4)"
    "f32_add (Fin (135 / 4)) (Fin (5 / 4)) = Fin 35"
    unfolding f32_add.simps
    by (subst round32_eval [of 131], simp_all add: rne_def Let_def)+
  have k: "IsKeyDown (frame_keys [KEY_UP] dt) KEY_UP" "GetFrameTime (frame_keys [KEY_UP] dt) = dt"
    for dt by (simp_all add: frame_keys_def)
  have a: "fractal_tree_angle example_game = Fin 30" by (simp add: example_game_def)
  show ?thesis
    by (simp only: InputGame_seq.simps InputGame_angle_value k if_True a m s)
qed

theorem InputGame_up_half_second_witness:
  "elapsed [frame_keys [KEY_UP] (Fin (1 / 4)), frame_keys [KEY_UP] (Fin (1 / 8)),
      frame_keys [KEY_UP] (Fin (1 / 8))] = 1 / 2 \<and>
   (\<exists>a. fractal_tree_angle (InputGame_seq example_game
       [frame_keys [KEY_UP] (Fin (1 / 4)), frame_keys [KEY_UP] (Fin (1 / 8)),
        frame_keys [KEY_UP] (Fin (1 / 8))]) = Fin a \<and>
      \<bar>a - 35\<bar> \<le> 3 / 2 ^ 18 \<and>
      offset (camera (InputGame_seq example_game
       [frame_keys [KEY_UP] (Fin (1 / 4)), frame_keys [KEY_UP] (Fin (1 / 8)),
        frame_keys [KEY_UP] (Fin (1 / 8))])) = \<lparr>vx = Fin 0, vy = Fin 0\<rparr>)"
proof -
  let ?fs = "[frame_keys [KEY_UP] (Fin (1 / 4)), frame_keys [KEY_UP] (Fin (1 / 8)),
      frame_keys [KEY_UP] (Fin (1 / 8))]"
  have k: "\<forall>f\<in>set ?fs. IsKeyDown f = (\<lambda>k. k = KEY_UP)"
    by (simp add: frame_keys_def)
  have t: "\<forall>f\<in>set ?fs. f32_finite (GetFrameTime f) \<and> 0 \<le> f32_value (GetFrameTime f)"
    by (simp add: frame_keys_def)
  have e: "elapsed ?fs = 1 / 2"
    by (simp add: frame_keys_def)
  have n: "length ?fs \<le> 2 ^ 20" by simp
  have "\<exists>a. fractal_tree_angle (InputGame_seq example_game ?fs) = Fin a \<and>
      \<bar>a - 35\<bar> \<le> real (length ?fs) / 2 ^ 18 \<and>
      offset (camera (InputGame_seq example_game ?fs)) = \<lparr>vx = Fin 0, vy = Fin 0\<rparr>"
    by (rule InputGame_up_half_second [OF _ _ _ k t e n]) (simp_all add: example_game_def)
  with e show ?thesis by simp
qed

text \<open>
  The claim as stated allows any sequence of calls. With \<open>2 ^ 23\<close> frames of \<open>2 ^ -24\<close>
  seconds each, half a second in all, every single step rounds back to 30 and the angle
  never moves.
\<close>

lemma InputGame_seq_replicate:
  "InputGame f game = game \<Longrightarrow> InputGame_seq game (replicate n f) = game"
  by (induction n) simp_all

lemma elapsed_replicate: "elapsed (replicate n f) = real n * f32_value (GetFrameTime f)"
  by (induction n) (simp_all add: algebra_simps)

lemma InputGame_tiny_frame:
  "InputGame (frame_keys [KEY_UP] (Fin (1 / 2 ^ 24))) example_game = example_game"
proof -
  have m: "f32_mul (Fin 10) (Fin (1 / 2 ^ 24)) = Fin (5 / 2 ^ 23)"
    unfolding f32_mul.simps
    by (subst round32_eval [of 105]) (simp_all add: rne_def Let_def)
  have s: "f32_add (Fin 30) (Fin (5 / 2 ^ 23)) = Fin 30"
    unfolding f32_add.simps
    by (subst round32_eval [of 130]) (simp_all add: rne_def Let_def)
  have z: "f32_add (Fin 0) (Fin 0) = Fin 0" by (simp add: round32_0)
  have c: "InputGame_camera (frame_keys [KEY_UP] (Fin (1 / 2 ^ 24))) example_game = example_game"
    unfolding InputGame_camera_def Let_def Vector2Add_def
    by (simp only: InputGame_moveVector_x InputGame_moveVector_y)
      (simp add: frame_keys_def example_game_def round32_0)
  have k: "IsKeyDown (frame_keys [KEY_UP] (Fin (1 / 2 ^ 24))) KEY_UP"
    "GetFrameTime (frame_keys [KEY_UP] (Fin (1 / 2 ^ 24))) = Fin (1 / 2 ^ 24)"
    "fractal_tree_angle example_game = Fin 30"
    by (simp_all add: frame_keys_def example_game_def)
  have "InputGame_angle (frame_keys [KEY_UP] (Fin (1 / 2 ^ 24))) example_game =
      example_game\<lparr>fractal_tree_angle := Fin 30\<rparr>"
    by (simp only: InputGame_angle_def k if_True m s)
  also have "\<dots> = example_game" by (simp add: example_game_def)
  finally show ?thesis by (simp only: InputGame_def c)
qed

theorem InputGame_up_half_second_counterexample:
  "f32_representable (1 / 2 ^ 24) \<and>
   elapsed (replicate (2 ^ 23) (frame_keys [KEY_UP] (Fin (1 / 2 ^ 24)))) = 1 / 2 \<and>
   fractal_tree_angle example_game = Fin 30 \<and>
   fractal_tree_angle
     (InputGame_seq example_game (replicate (2 ^ 23) (frame_keys [KEY_UP] (Fin (1 / 2 ^ 24))))) =
     Fin 30"
proof -
  have 1: "f32_representable (1 / 2 ^ 24)"
    unfolding f32_representable_def
    by (rule round32_exact [where m = 1 and k = 125]) simp_all
  have 2: "elapsed (replicate (2 ^ 23) (frame_keys [KEY_UP] (Fin (1 / 2 ^ 24)))) = 1 / 2"
    by (simp only: elapsed_replicate) (simp add: frame_keys_def)
  have 3: "fractal_tree_angle example_game = Fin 30" by (simp add: example_game_def)
  have 4: "InputGame_seq example_game (replicate (2 ^ 23) (frame_keys [KEY_UP] (Fin (1 / 2 ^ 24)))) =
      example_game"
    using InputGame_tiny_frame by (rule InputGame_seq_replicate)
  from 1 2 3 show ?thesis by (simp only: 4)
qed

section \<open>Properties of the tree generator\<close>

text \<open>Once the length has shrunk below the threshold after \<open>n\<close> steps, depth \<open>n + 1\<close> is enough.\<close>

lemma RecursiveTreeDraw_enough:
  "c * k ^ n < T \<Longrightarrow> n < m \<Longrightarrow> \<exists>cmds. RecursiveTreeDraw m T k c b a = Some cmds"
proof (induction n arbitrary: c m)
  case 0
  then obtain m' where m: "m = Suc m'" by (cases m) auto
  from 0 show ?case by (simp add: m)
next
  case (Suc n)
  then obtain m' where m: "m = Suc m'" and nm: "n < m'" by (cases m) auto
  show ?case
  proof (cases "c < T")
    case True
    then show ?thesis by (simp add: m)
  next
    case False
    from Suc.prems(1) have "(c * k) * k ^ n < T" by (simp add: mult.assoc)
    from Suc.IH [OF this nm] obtain r where "RecursiveTreeDraw m' T k (c * k) b a = Some r" ..
    with False show ?thesis by (simp add: m)
  qed
qed

lemma shrink_reaches:
  fixes T L k :: real
  assumes "0 < T" "0 < L" "k < 1"
  shows "\<exists>n. L * k ^ n < T"
proof -
  from assms have "0 < T / L" by simp
  from real_arch_pow_inv [OF this \<open>k < 1\<close>] obtain n where "k ^ n < T / L" ..
  with \<open>0 < L\<close> have "L * k ^ n < T" by (simp add: pos_less_divide_eq mult.commute)
  then show ?thesis ..
qed

text \<open>With threshold 4 and shrink factor one half, a tree of length 10 needs depth 3.\<close>

lemma RecursiveTreeDraw_example:
  "RecursiveTreeDraw 2 4 (1 / 2) 10 10 30 = None \<and>
   RecursiveTreeDraw 3 4 (1 / 2) 10 10 30 =
     Some [DrawSegment 10, TranslateUp 10, PushTransform, Rotate 30,
       DrawSegment 5, TranslateUp 5, PushTransform, Rotate 30, PopTransform,
       PushTransform, Rotate (- 30), PopTransform,
       PopTransform, PushTransform, Rotate (- 30),
       DrawSegment 5, TranslateUp 5, PushTransform, Rotate 30, PopTransform,
       PushTransform, Rotate (- 30), PopTransform,
       PopTransform]"
  by (simp add: numeral_2_eq_2 numeral_3_eq_3)

text \<open>
  Claim C1. For every threshold \<open>T > 0\<close>, every starting length \<open>L > T\<close> and every angle,
  with a shrink factor \<open>k\<close> between 0 and 1, the call \<open>RecursiveTreeDraw(L, L, angle)\<close>
  returns within a bounded number of recursion levels: there is an \<open>n\<close> (one with
  \<open>L * k ^ n < T\<close>) such that every depth bound above \<open>n\<close> lets the call return its
  commands. And a call whose current length is below the threshold returns at once with
  no command at all.
\<close>

theorem RecursiveTreeDraw_terminates:
  fixes T L k angle :: real
  assumes "0 < T" and "T < L" and "0 < k" and "k < 1"
  shows "(\<exists>n. L * k ^ n < T \<and>
            (\<forall>m>n. \<exists>cmds. RecursiveTreeDraw m T k L L angle = Some cmds)) \<and>
         (\<forall>m c b. c < T \<longrightarrow> RecursiveTreeDraw (Suc m) T k c b angle = Some [])"
proof -
  from assms have "0 < L" by simp
  from shrink_reaches [OF \<open>0 < T\<close> this \<open>k < 1\<close>] obtain n where n: "L * k ^ n < T" ..
  have "\<forall>m>n. \<exists>cmds. RecursiveTreeDraw m T k L L angle = Some cmds"
    using RecursiveTreeDraw_enough [OF n] by blast
  with n show ?thesis by auto
qed

theorem RecursiveTreeDraw_terminates_witness:
  "(0::real) < 4 \<and> (4::real) < 10 \<and> (0::real) < 1 / 2 \<and> (1 / 2 :: real) < 1 \<and>
   (\<exists>n. 10 * (1 / 2) ^ n < (4::real) \<and>
      (\<forall>m>n. \<exists>cmds. RecursiveTreeDraw m 4 (1 / 2) 10 10 30 = Some cmds)) \<and>
   (3::real) < 4 \<and> RecursiveTreeDraw (Suc 0) 4 (1 / 2) 3 10 30 = Some []"
  using RecursiveTreeDraw_terminates [of 4 10 "1 / 2" 30] by simp

section \<open>Properties of the game loop\<close>

subsection \<open>What the loop does not do\<close>

text \<open>
  The loop body makes drawing calls only: no set-up call, no release call, no shader
  load, and nothing that creates or releases a resource. It stops at the first frame at
  which the close request is seen, and it keeps the zoom, the starting length and the
  window size.
\<close>

lemma RunGame_loop_no_setup:
  "filter is_setup_call (fst (snd (RunGame_loop sh fb game fs))) = []"
  by (induction fs arbitrary: game) (simp_all add: Let_def case_prod_beta)

lemma RunGame_loop_no_release:
  "filter is_release_call (fst (snd (RunGame_loop sh fb game fs))) = []"
  by (induction fs arbitrary: game) (simp_all add: Let_def case_prod_beta)

lemma RunGame_loop_no_LoadShader:
  "filter is_LoadShader (fst (snd (RunGame_loop sh fb game fs))) = []"
  by (induction fs arbitrary: game) (simp_all add: Let_def case_prod_beta)

lemma RunGame_loop_stops:
  "WindowShouldClose f \<Longrightarrow>
     RunGame_loop sh fb game (fs @ f # fs') = RunGame_loop sh fb game (fs @ [f])"
  by (induction fs arbitrary: game) (simp_all add: Let_def)

lemma RunGame_loop_left:
  "WindowShouldClose f \<Longrightarrow> snd (snd (RunGame_loop sh fb game (fs @ f # fs')))"
  by (induction fs arbitrary: game) (simp_all add: Let_def case_prod_beta)

lemma InputGame_keeps:
  "zoom (camera (InputGame f game)) = zoom (camera game) \<and>
   fractal_tree_start_length (InputGame f game) = fractal_tree_start_length game \<and>
   window_size (InputGame f game) = window_size game"
  by (simp add: InputGame_def InputGame_angle_def InputGame_camera_def Let_def)

lemma RunGame_loop_zoom_length:
  "zoom (camera (fst (RunGame_loop sh fb game fs))) = zoom (camera game) \<and>
   fractal_tree_start_length (fst (RunGame_loop sh fb game fs)) =
     fractal_tree_start_length game \<and>
   window_size (fst (RunGame_loop sh fb game fs)) = window_size game"
  by (induction fs arbitrary: game)
    (simp_all add: Let_def InputGame_keeps case_prod_beta)

lemma held_after_append:
  "held_after p (xs @ ys) held = held_after p ys (held_after p xs held)"
  by (induction xs arbitrary: held) simp_all

lemma RunGame_loop_holds:
  "held_after p (fst (snd (RunGame_loop sh fb game fs))) held = held"
  by (induction fs arbitrary: game) (simp_all add: Let_def case_prod_beta)

text \<open>The calls and the return status of \<open>RunGame\<close> in terms of its loop.\<close>

lemma RunGame_calls:
  "fst (snd (RunGame p game fs)) =
     [LoadShader None (Some (TextFormat (ASSETS_PATH p @ ''postprocessing.glsl'') [330])),
      LoadRenderTexture (size_x (window_size game)) (size_y (window_size game))] @
     fst (snd (RunGame_loop (LoadShader_result p) (LoadRenderTexture_result p) game fs)) @
     (if snd (snd (RunGame_loop (LoadShader_result p) (LoadRenderTexture_result p) game fs))
      then [CloseWindow] else [])"
  by (simp add: RunGame_def Let_def case_prod_beta)

lemma RunGame_left:
  "snd (snd (RunGame p game fs)) =
     snd (snd (RunGame_loop (LoadShader_result p) (LoadRenderTexture_result p) game fs))"
  by (simp add: RunGame_def Let_def case_prod_beta)

text \<open>
  A whole run on two frames: the increase key held for a quarter second, then the close
  request.
\<close>

lemma StartGame_example:
  "StartGame example_platform example_game [frame_keys [KEY_UP] (Fin (1 / 4)), frame_close] =
     (example_game\<lparr>camera := (camera example_game)\<lparr>zoom := Fin (1 / 2)\<rparr>,
                   fractal_tree_angle := Fin (65 / 2)\<rparr>,
      [InitWindow 800 600 ''tree'',
       SetTargetFPS 60,
       LoadShader None (Some ''assets/postprocessing.glsl''),
       LoadRenderTexture 800 600,
       BeginTextureMode (LoadRenderTexture_result example_platform),
       BeginMode2D ((camera example_game)\<lparr>zoom := Fin (1 / 2)\<rparr>),
       ClearBackground SKYBLUE,
       rlPushMatrix,
       rlTranslatef (Fin 800) (Fin 1200) (Fin 0),
       RecursiveTreeDraw_call (Fin 350) (Fin 350) (Fin (65 / 2)),
       rlPopMatrix,
       EndMode2D,
       EndTextureMode,
       BeginDrawing,
       ClearBackground WHITE,
       BeginShaderMode (LoadShader_result example_platform),
       DrawTextureRec \<lparr>tex_id = 2, tex_width = 800, tex_height = 600\<rparr>
         \<lparr>rect_x = Fin 0, rect_y = Fin 0, rect_width = Fin 800, rect_height = Fin (- 600)\<rparr>
         \<lparr>vx = Fin 0, vy = Fin 0\<rparr> WHITE,
       EndShaderMode,
       EndDrawing,
       CloseWindow],
      True)"
proof -
  have r: "round32 (5 / 2) = Fin (5 / 2)" "round32 (65 / 2) = Fin (65 / 2)"
    using f32_representable_example by (simp_all add: f32_representable_def)
  show ?thesis
    by (simp add: StartGame_def StartGame_init_def RunGame_def Let_def frame_keys_def
      frame_close_def example_game_def example_platform_def InputGame_def InputGame_angle_def
      InputGame_camera_def InputGame_moveVector_def Vector2Add_def f32_of_int_small
      round32_0 r)
qed

subsection \<open>The order of the drawing calls\<close>

text \<open>Two iterations run before the close request; the frame after it is not reached.\<close>

lemma loop_states_example:
  "loop_states example_game
     [frame_keys [KEY_UP] (Fin (1 / 4)), frame_keys [] (Fin (1 / 4)), frame_close,
      frame_keys [] (Fin 1)] =
   [example_game\<lparr>fractal_tree_angle := Fin (65 / 2)\<rparr>,
    example_game\<lparr>fractal_tree_angle := Fin (65 / 2)\<rparr>]"
proof -
  have r: "round32 (5 / 2) = Fin (5 / 2)" "round32 (65 / 2) = Fin (65 / 2)"
    using f32_representable_example by (simp_all add: f32_representable_def)
  show ?thesis
    by (simp add: frame_keys_def frame_close_def example_game_def InputGame_def
      InputGame_angle_def InputGame_camera_def InputGame_moveVector_def Let_def Vector2Add_def
      round32_0 r)
qed

text \<open>
  Claim C6. The calls of the loop are, iteration after iteration, exactly these fifteen in
  this order, for the game state \<open>g\<close> left by the input handler of that iteration: bind
  the off-screen target; apply the camera; clear to sky blue; push the transform;
  translate by the window width and twice the window height; call the tree generator with
  the starting length (twice) and the angle; pop the transform; end the camera mode; end
  the texture mode; begin drawing on the default framebuffer; clear to white; bind the
  shader; draw the target's colour texture from the source rectangle of the texture's
  width and its negated height at position (0, 0); unbind the shader; end the drawing
  (which presents the frame).
\<close>

theorem RunGame_loop_call_order:
  "fst (snd (RunGame_loop pp_shader framebuffer_texture game fs)) =
     concat (map (\<lambda>g.
       [BeginTextureMode framebuffer_texture,
        BeginMode2D (camera g),
        ClearBackground SKYBLUE,
        rlPushMatrix,
        rlTranslatef (f32_of_int (size_x (window_size g)))
          (f32_of_int (size_y (window_size g) * 2)) (Fin 0),
        RecursiveTreeDraw_call (fractal_tree_start_length g)
          (fractal_tree_start_length g) (fractal_tree_angle g),
        rlPopMatrix,
        EndMode2D,
        EndTextureMode,
        BeginDrawing,
        ClearBackground WHITE,
        BeginShaderMode pp_shader,
        DrawTextureRec (texture framebuffer_texture)
          \<lparr>rect_x = Fin 0, rect_y = Fin 0,
           rect_width = f32_of_int (tex_width (texture framebuffer_texture)),
           rect_height = f32_of_int (- tex_height (texture framebuffer_texture))\<rparr>
          \<lparr>vx = Fin 0, vy = Fin 0\<rparr> WHITE,
        EndShaderMode,
        EndDrawing]) (loop_states game fs))"
  by (induction fs arbitrary: game) (simp_all add: Let_def case_prod_beta)

subsection \<open>Start\<close>

text \<open>
  Claim C7. \<open>StartGame\<close> creates the window with the configured size and title, sets the
  zoom to one half, the angle to 30 and the starting length to 350, caps the frame rate
  at 60, loads the shader and creates the render target of the window's size; the loop
  starts from that state, after these four calls. In the whole run each of the four
  set-up calls is made exactly once, and the zoom stays one half.
\<close>

theorem StartGame_setup:
  "StartGame p game fs =
     (case RunGame_loop (LoadShader_result p) (LoadRenderTexture_result p)
             (game\<lparr>camera := (camera game)\<lparr>zoom := Fin (1 / 2)\<rparr>, fractal_tree_angle := Fin 30,
                   fractal_tree_start_length := Fin 350\<rparr>) fs of
        (g, cs, r) \<Rightarrow>
          (g,
           [InitWindow (size_x (window_size game)) (size_y (window_size game)) (title game),
            SetTargetFPS 60,
            LoadShader None (Some (TextFormat (ASSETS_PATH p @ ''postprocessing.glsl'') [330])),
            LoadRenderTexture (size_x (window_size game)) (size_y (window_size game))] @
           cs @ (if r then [CloseWindow] else []),
           r)) \<and>
   filter is_setup_call (fst (snd (StartGame p game fs))) =
     [InitWindow (size_x (window_size game)) (size_y (window_size game)) (title game),
      SetTargetFPS 60,
      LoadShader None (Some (TextFormat (ASSETS_PATH p @ ''postprocessing.glsl'') [330])),
      LoadRenderTexture (size_x (window_size game)) (size_y (window_size game))] \<and>
   zoom (camera (fst (StartGame p game fs))) = Fin (1 / 2)"
proof -
  let ?g0 = "game\<lparr>camera := (camera game)\<lparr>zoom := Fin (1 / 2)\<rparr>, fractal_tree_angle := Fin 30,
                   fractal_tree_start_length := Fin 350\<rparr>"
  have init: "StartGame_init game = ?g0"
    by (simp add: StartGame_init_def Let_def)
  have 1: "StartGame p game fs =
     (case RunGame_loop (LoadShader_result p) (LoadRenderTexture_result p) ?g0 fs of
        (g, cs, r) \<Rightarrow>
          (g,
           [InitWindow (size_x (window_size game)) (size_y (window_size game)) (title game),
            SetTargetFPS 60,
            LoadShader None (Some (TextFormat (ASSETS_PATH p @ ''postprocessing.glsl'') [330])),
            LoadRenderTexture (size_x (window_size game)) (size_y (window_size game))] @
           cs @ (if r then [CloseWindow] else []),
           r))"
    by (simp add: StartGame_def RunGame_def init Let_def case_prod_beta)
  have 2: "filter is_setup_call (fst (snd (StartGame p game fs))) =
     [InitWindow (size_x (window_size game)) (size_y (window_size game)) (title game),
      SetTargetFPS 60,
      LoadShader None (Some (TextFormat (ASSETS_PATH p @ ''postprocessing.glsl'') [330])),
      LoadRenderTexture (size_x (window_size game)) (size_y (window_size game))]"
    using RunGame_loop_no_setup [of "LoadShader_result p" "LoadRenderTexture_result p" ?g0 fs]
    by (simp add: 1 case_prod_beta)
  have 3: "zoom (camera (fst (StartGame p game fs))) = Fin (1 / 2)"
    using RunGame_loop_zoom_length [of "LoadShader_result p" "LoadRenderTexture_result p" ?g0 fs]
    by (simp add: 1 case_prod_beta)
  from 1 2 3 show ?thesis by blast
qed

subsection \<open>Close\<close>

text \<open>Resources held after some calls of a run without its last call, and after one unload.\<close>

lemma held_after_example:
  "held_after example_platform
     [InitWindow 800 600 ''tree'', SetTargetFPS 60,
      LoadShader None (Some ''assets/postprocessing.glsl''), LoadRenderTexture 800 600,
      BeginDrawing, EndDrawing] {} =
     {RenderTarget (LoadRenderTexture_result example_platform),
      ShaderObject (LoadShader_result example_platform), Window} \<and>
   held_after example_platform
     [InitWindow 800 600 ''tree'', SetTargetFPS 60,
      LoadShader None (Some ''assets/postprocessing.glsl''), LoadRenderTexture 800 600,
      BeginDrawing, EndDrawing, UnloadShader (LoadShader_result example_platform)] {} =
     {RenderTarget (LoadRenderTexture_result example_platform), Window}"
  by (auto simp: example_platform_def)

text \<open>
  Claim C8. When the close request is seen at some frame, the loop is left and \<open>RunGame\<close>
  returns; the frames after it are never looked at, so nothing runs again after the
  close. The one release call of the run is \<open>CloseWindow\<close>, and it is the last call: up
  to it the shader and the render target are held, together with whatever was held
  before (the window), and after it nothing is held any more.
\<close>

theorem RunGame_close:
  assumes "WindowShouldClose f"
  shows "snd (snd (RunGame p game (fs @ f # fs'))) \<and>
         RunGame p game (fs @ f # fs') = RunGame p game (fs @ [f]) \<and>
         filter is_release_call (fst (snd (RunGame p game (fs @ f # fs')))) = [CloseWindow] \<and>
         last (fst (snd (RunGame p game (fs @ f # fs')))) = CloseWindow \<and>
         held_after p (butlast (fst (snd (RunGame p game (fs @ f # fs'))))) held =
           insert (RenderTarget (LoadRenderTexture_result p))
             (insert (ShaderObject (LoadShader_result p)) held) \<and>
         held_after p (fst (snd (RunGame p game (fs @ f # fs')))) held = {}"
proof -
  have l: "snd (snd (RunGame_loop (LoadShader_result p) (LoadRenderTexture_result p) game
      (fs @ f # fs')))"
    using assms by (rule RunGame_loop_left)
  have 1: "snd (snd (RunGame p game (fs @ f # fs')))"
    by (simp only: RunGame_left l)
  have 2: "RunGame p game (fs @ f # fs') = RunGame p game (fs @ [f])"
    by (simp only: RunGame_def RunGame_loop_stops [OF assms, where fs' = fs'])
  have 3: "filter is_release_call (fst (snd (RunGame p game (fs @ f # fs')))) = [CloseWindow]"
    by (simp add: RunGame_calls l RunGame_loop_no_release)
  have 4: "last (fst (snd (RunGame p game (fs @ f # fs')))) = CloseWindow"
    by (simp add: RunGame_calls l)
  have 5: "held_after p (butlast (fst (snd (RunGame p game (fs @ f # fs'))))) held =
      insert (RenderTarget (LoadRenderTexture_result p))
        (insert (ShaderObject (LoadShader_result p)) held)"
    by (simp add: RunGame_calls l butlast_append RunGame_loop_holds)
  have 6: "held_after p (fst (snd (RunGame p game (fs @ f # fs')))) held = {}"
    by (simp add: RunGame_calls l held_after_append RunGame_loop_holds)
  from 1 2 3 4 5 6 show ?thesis by blast
qed

theorem RunGame_close_witness:
  "WindowShouldClose frame_close \<and>
   snd (snd (RunGame example_platform example_game
     ([frame_keys [KEY_UP] (Fin (1 / 4))] @ frame_close # [frame_keys [] (Fin 1)]))) \<and>
   RunGame example_platform example_game
     ([frame_keys [KEY_UP] (Fin (1 / 4))] @ frame_close # [frame_keys [] (Fin 1)]) =
   RunGame example_platform example_game ([frame_keys [KEY_UP] (Fin (1 / 4))] @ [frame_close]) \<and>
   filter is_release_call
     (fst (snd (RunGame example_platform example_game
        ([frame_keys [KEY_UP] (Fin (1 / 4))] @ frame_close # [frame_keys [] (Fin 1)])))) =
     [CloseWindow] \<and>
   last (fst (snd (RunGame example_platform example_game
     ([frame_keys [KEY_UP] (Fin (1 / 4))] @ frame_close # [frame_keys [] (Fin 1)])))) =
     CloseWindow \<and>
   held_after example_platform
     (butlast (fst (snd (RunGame example_platform example_game
        ([frame_keys [KEY_UP] (Fin (1 / 4))] @ frame_close # [frame_keys [] (Fin 1)])))))
     {Window} =
     {RenderTarget (LoadRenderTexture_result example_platform),
      ShaderObject (LoadShader_result example_platform), Window} \<and>
   held_after example_platform
     (fst (snd (RunGame example_platform example_game
        ([frame_keys [KEY_UP] (Fin (1 / 4))] @ frame_close # [frame_keys [] (Fin 1)]))))
     {Window} = {}"
proof -
  have c: "WindowShouldClose frame_close"
    by (simp add: frame_close_def)
  from RunGame_close [OF c, of example_platform example_game
      "[frame_keys [KEY_UP] (Fin (1 / 4))]" "[frame_keys [] (Fin 1)]" "{Window}"] c
  show ?thesis by blast
qed

subsection \<open>The shader file\<close>

text \<open>A format with no percent sign is printed as it is, whatever the arguments.\<close>

lemma TextFormat_plain: "CHR ''%'' \<notin> set fmt \<Longrightarrow> TextFormat fmt args = fmt"
  by (induction fmt args rule: TextFormat.induct) auto

lemma TextFormat_example: "TextFormat ''glsl%i/bloom.fs'' [330] = ''glsl330/bloom.fs''"
  by (simp add: dec_int_def)

text \<open>
  Claim C9, as amended. Where \<^verbatim>\<open>ASSETS_PATH\<close> holds no percent sign, the first call of
  \<open>RunGame\<close> is the one shader load of the run: no vertex shader file (the default vertex
  stage) and the fragment shader file \<^verbatim>\<open>ASSETS_PATH\<close> followed by
  \<^verbatim>\<open>postprocessing.glsl\<close>. The number 330 is handed to the formatter, and the path does
  not depend on it.
\<close>

theorem RunGame_LoadShader_once:
  assumes "CHR ''%'' \<notin> set (ASSETS_PATH p)"
  shows "\<exists>rest. fst (snd (RunGame p game fs)) =
            LoadShader None (Some (ASSETS_PATH p @ ''postprocessing.glsl'')) # rest \<and>
            filter is_LoadShader rest = []"
proof -
  have "CHR ''%'' \<notin> set (ASSETS_PATH p @ ''postprocessing.glsl'')"
    using assms by simp
  then have t: "TextFormat (ASSETS_PATH p @ ''postprocessing.glsl'') [330] =
      ASSETS_PATH p @ ''postprocessing.glsl''"
    by (rule TextFormat_plain)
  show ?thesis
    by (simp add: RunGame_calls t RunGame_loop_no_LoadShader)
qed

theorem RunGame_LoadShader_once_witness:
  "CHR ''%'' \<notin> set (ASSETS_PATH example_platform) \<and>
   (\<exists>rest.
      fst (snd (RunGame example_platform example_game
        [frame_keys [KEY_UP] (Fin (1 / 4)), frame_close])) =
      LoadShader None (Some ''assets/postprocessing.glsl'') # rest \<and>
      filter is_LoadShader rest = [])"
proof -
  have c: "CHR ''%'' \<notin> set (ASSETS_PATH example_platform)"
    by (simp add: example_platform_def)
  from RunGame_LoadShader_once [OF c, of example_game
      "[frame_keys [KEY_UP] (Fin (1 / 4)), frame_close]"] c
  show ?thesis by (simp add: example_platform_def)
qed

text \<open>
  The claim as stated has the version 330 formatted into the path. With the assets
  directory \<^verbatim>\<open>assets/\<close> the path of the only shader load is
  \<^verbatim>\<open>assets/postprocessing.glsl\<close>, in which 330 does not occur.
\<close>

theorem RunGame_shader_path_counterexample:
  "filter is_LoadShader (fst (snd (RunGame example_platform example_game [frame_close]))) =
     [LoadShader None (Some ''assets/postprocessing.glsl'')] \<and>
   \<not> sublist ''330'' ''assets/postprocessing.glsl''"
proof -
  have "\<not> sublist ''330'' ''assets/postprocessing.glsl''" by code_simp
  then show ?thesis
    by (simp add: RunGame_def Let_def frame_close_def example_platform_def)
qed

subsection \<open>End\<close>

text \<open>
  Claim C10. \<open>EndGame\<close> does nothing: it returns the game state it was given, every field
  as it was, and makes no call into the library.
\<close>

theorem EndGame_noop: "EndGame game = (game, [])"
  by (simp add: EndGame_def)

end
